theory Spec2Isabelle
  imports Complex_Main "HOL-Library.AList"
begin

section \<open>Seismic damage sampling and serviceability aggregation\<close>

text \<open>
  A shallow embedding of \<^verbatim>\<open>src/modules/hydraulic_simulator.py\<close> (class
  \<^verbatim>\<open>HydraulicSimulator\<close>). Python floats are modelled as \<^typ>\<open>real\<close>, Python
  ints as \<^typ>\<open>int\<close>, dictionaries as association lists in insertion order
  (an assignment to an existing key keeps its position, as in Python), exceptions as
  the left summand of a sum type. The ambient generator \<^verbatim>\<open>np.random\<close>, the hydraulic
  solver and \<^verbatim>\<open>wntr.metrics.expected_demand\<close> are libraries outside the repository:
  the model takes them as parameters and threads the generator state explicitly.
\<close>

subsection \<open>Data model\<close>

text \<open>One row of \<^verbatim>\<open>scenarios_df\<close>.\<close>

record scenario_row =
  scenario_index :: int
  site_id :: string
  PGA :: real
  PGV :: real

text \<open>What the code reads of a pipe: \<^verbatim>\<open>wn.get_link(name).length\<close> and \<^verbatim>\<open>.diameter\<close>.\<close>

record pipe =
  p_length :: real
  p_diameter :: real

record leak =
  leak_area :: real
  leak_start :: int
  leak_end :: int

record options =
  demand_model :: string
  duration :: int
  minimum_pressure :: real
  required_pressure :: real

text \<open>
  What the code reads and changes of a \<^verbatim>\<open>WaterNetworkModel\<close>: the pipes by name
  (\<^verbatim>\<open>pipe_name_list\<close> is the list of their names), the node and junction names, the
  leaks attached to nodes, and the hydraulic options.
\<close>

record network =
  pipes :: "(string \<times> pipe) list"
  node_name_list :: "string list"
  junction_name_list :: "string list"
  leaks :: "(string \<times> leak) list"
  opts :: options

definition pipe_name_list :: "network \<Rightarrow> string list" where
  "pipe_name_list wn = map fst (pipes wn)"

definition get_link :: "network \<Rightarrow> string \<Rightarrow> pipe option" where
  "get_link wn name = map_of (pipes wn) name"

datatype error =
    ValueError        \<comment> \<open>\<^verbatim>\<open>np.random.poisson\<close> with a negative rate; \<^verbatim>\<open>DataFrame.from_dict\<close> on lists of unequal length\<close>
  | KeyError          \<comment> \<open>\<^verbatim>\<open>wn.get_link\<close> on a name that is no link\<close>
  | RuntimeError      \<comment> \<open>\<^verbatim>\<open>split_pipe\<close>: a new name is already in use\<close>
  | SimulationError   \<comment> \<open>whatever \<^verbatim>\<open>sim.run_sim()\<close> raises\<close>

text \<open>
  The generator \<^verbatim>\<open>np.random\<close>: a state of type \<open>'g\<close> and the two draws the code makes.
  \<^verbatim>\<open>poisson\<close> is only called with a rate that is not negative (the model raises
  before, as numpy does; numpy's upper limit on the rate is not modelled).
\<close>

record 'g rng =
  poisson :: "real \<Rightarrow> 'g \<Rightarrow> nat \<times> 'g"
  uniform :: "'g \<Rightarrow> real \<times> 'g"

text \<open>
  The solver and the expected-demand metric: \<^verbatim>\<open>run_sim\<close> returns the demand time
  series of each node (\<^verbatim>\<open>results.node['demand'].loc[:, name]\<close>) or raises;
  \<^verbatim>\<open>expected_demand wn\<close> gives the expected-demand time series of each junction of
  the network it is handed. Both series hold at least the report step at time 0.
\<close>

record wntr =
  run_sim :: "network \<Rightarrow> error + (string \<Rightarrow> real list)"
  expected_demand :: "network \<Rightarrow> string \<Rightarrow> real list"

record config =
  cfg_duration :: int
  leak_start_time :: int
  leak_end_time :: int
  cfg_minimum_pressure :: real
  cfg_required_pressure :: real

text \<open>One row of the returned long-format table.\<close>

record serviceability_row =
  out_site_id :: string
  out_scenario_index :: int
  serviceability :: real

subsection \<open>The damage draw of one pipe row (\<^verbatim>\<open>apply_damage_states\<close>, loop body)\<close>

text \<open>Python's \<^verbatim>\<open>int(x)\<close> on a float truncates toward zero.\<close>

definition py_int :: "real \<Rightarrow> int" where
  "py_int x = (if x < 0 then \<lceil>x\<rceil> else \<lfloor>x\<rfloor>)"

text \<open>The local variables of the loop body, in the order the code computes them.\<close>

record damage_draw =
  repair_rate :: real
  link_length :: real
  num_damages :: nat
  leaks_n :: int
  breaks_n :: int
  area :: real
  orifice_area :: real
  pf :: real

definition repair_rate_of :: "real \<Rightarrow> real" where
  "repair_rate_of pgv = 0.000241 * pgv / 100"

definition link_length_of :: "pipe \<Rightarrow> real" where
  "link_length_of p = p_length p * 0.3048"

definition damage_draw_of :: "pipe \<Rightarrow> real \<Rightarrow> nat \<Rightarrow> damage_draw" where
  "damage_draw_of p pgv n =
     (let rr = repair_rate_of pgv;
          ll = link_length_of p;
          lk = py_int (0.85 * real n);
          br = py_int (0.15 * real n);
          a = pi * (p_diameter p / 2) ^ 2;
          oa = min ((0.03 * real_of_int lk + 0.2 * real_of_int br) * a) a
      in \<lparr> repair_rate = rr, link_length = ll, num_damages = n, leaks_n = lk, breaks_n = br,
           area = a, orifice_area = oa, pf = 1 - exp (- rr * ll) \<rparr>)"

text \<open>
  One pass of the loop over \<^verbatim>\<open>scenario_group.iterrows()\<close>: a row whose \<^verbatim>\<open>site_id\<close> is
  not a pipe name is passed over; otherwise the Poisson draw, then the uniform draw,
  and the pipe is entered in \<^verbatim>\<open>pipelines_orifice_areas\<close> when the uniform draw is
  below \<^verbatim>\<open>pf\<close>.
\<close>

fun apply_damage_states ::
  "'g rng \<Rightarrow> network \<Rightarrow> scenario_row list \<Rightarrow> (string \<times> real) list \<Rightarrow> 'g
     \<Rightarrow> error + ((string \<times> real) list \<times> 'g)" where
  "apply_damage_states R wn [] plan g = Inr (plan, g)"
| "apply_damage_states R wn (row # rows) plan g =
     (case get_link wn (site_id row) of
        None \<Rightarrow> apply_damage_states R wn rows plan g
      | Some p \<Rightarrow>
          if repair_rate_of (PGV row) * link_length_of p < 0 then Inl ValueError
          else
            (case poisson R (repair_rate_of (PGV row) * link_length_of p) g of (n, g1) \<Rightarrow>
             case uniform R g1 of (u, g2) \<Rightarrow>
               let d = damage_draw_of p (PGV row) n
               in apply_damage_states R wn rows
                    (if u < pf d then AList.update (site_id row) (orifice_area d) plan else plan) g2))"

subsection \<open>Inserting the leaks (\<^verbatim>\<open>run_hydraulic_simulation\<close>, lines 55 to 68)\<close>

text \<open>
  \<^verbatim>\<open>wntr.network.WaterNetworkModel(path)\<close> parses the same file for every scenario; the
  model takes the parsed network \<open>base\<close> as a parameter. The four assignments to
  \<^verbatim>\<open>wn.options\<close> follow.
\<close>

definition load_network :: "network \<Rightarrow> config \<Rightarrow> network" where
  "load_network base cfg =
     base\<lparr> opts := \<lparr> demand_model = ''PDD'', duration = cfg_duration cfg,
                      minimum_pressure = cfg_minimum_pressure cfg,
                      required_pressure = cfg_required_pressure cfg \<rparr> \<rparr>"

text \<open>
  Modelled from the spec: \<^verbatim>\<open>wntr.morph.split_pipe\<close> and \<^verbatim>\<open>add_leak\<close> are library
  calls whose code is not in the repository. Sections 4.3 and 6 of the spec give their
  contract: the pipe is split at its midpoint into two segments, a new junction with no
  demand of its own is inserted between them, and the result is a new snapshot; the leak
  is attached to that junction with the given area and time window. The library refuses
  a new name that is already in use.
\<close>

definition split_pipe :: "network \<Rightarrow> string \<Rightarrow> string \<Rightarrow> string \<Rightarrow> error + network" where
  "split_pipe wn pipe_name new_pipe_name new_junction_name =
     (case get_link wn pipe_name of
        None \<Rightarrow> Inl KeyError
      | Some p \<Rightarrow>
          if new_pipe_name \<in> set (pipe_name_list wn) \<or> new_junction_name \<in> set (node_name_list wn)
          then Inl RuntimeError
          else Inr (wn\<lparr> pipes := AList.update pipe_name (p\<lparr> p_length := p_length p * 0.5 \<rparr>) (pipes wn)
                                   @ [(new_pipe_name, p\<lparr> p_length := p_length p * 0.5 \<rparr>)],
                         node_name_list := node_name_list wn @ [new_junction_name],
                         junction_name_list := junction_name_list wn @ [new_junction_name] \<rparr>))"

definition add_leak :: "network \<Rightarrow> string \<Rightarrow> real \<Rightarrow> int \<Rightarrow> int \<Rightarrow> network" where
  "add_leak wn node a t0 t1 =
     wn\<lparr> leaks := AList.update node \<lparr> leak_area = a, leak_start = t0, leak_end = t1 \<rparr> (leaks wn) \<rparr>"

text \<open>
  The loop over \<^verbatim>\<open>pipelines_orifice_areas.items()\<close>: every pipe of the plan is split
  (new pipe \<^verbatim>\<open>f"{pipe}_A"\<close>, new node \<^verbatim>\<open>f"Leak_{pipe}"\<close>) and the leak node gets a leak
  of the drawn area, whatever that area is.
\<close>

fun apply_orifice_areas :: "config \<Rightarrow> network \<Rightarrow> (string \<times> real) list \<Rightarrow> error + network" where
  "apply_orifice_areas cfg wn [] = Inr wn"
| "apply_orifice_areas cfg wn ((pipe_id, oa) # rest) =
     (case split_pipe wn pipe_id (pipe_id @ ''_A'') (''Leak_'' @ pipe_id) of
        Inl e \<Rightarrow> Inl e
      | Inr wn' \<Rightarrow>
          apply_orifice_areas cfg
            (add_leak wn' (''Leak_'' @ pipe_id) oa (leak_start_time cfg) (leak_end_time cfg)) rest)"

subsection \<open>Serviceability of one scenario (lines 74 to 90)\<close>

definition mean :: "real list \<Rightarrow> real" where
  "mean xs = sum_list xs / real (length xs)"

text \<open>
  The loop over \<^verbatim>\<open>wn.node_name_list\<close>. Here \<open>wn\<close> is the network the solver ran on:
  the code hands this same object to \<^verbatim>\<open>wntr.metrics.expected_demand\<close>.
\<close>

fun calc_serviceability ::
  "wntr \<Rightarrow> network \<Rightarrow> (string \<Rightarrow> real list) \<Rightarrow> string list \<Rightarrow> (string \<times> real) list
     \<Rightarrow> (string \<times> real) list" where
  "calc_serviceability L wn results [] acc = acc"
| "calc_serviceability L wn results (node_name # rest) acc =
     (if node_name \<in> set (junction_name_list wn) then
        let satisfied_demand = mean (results node_name);
            required_demand = mean (expected_demand L wn node_name)
        in if required_demand = 0 then calc_serviceability L wn results rest acc
           else calc_serviceability L wn results rest
                  (AList.update node_name (satisfied_demand / required_demand) acc)
      else calc_serviceability L wn results rest acc)"

text \<open>The loop that appends one scenario's values to \<^verbatim>\<open>serviceability_dict\<close>.\<close>

fun accumulate ::
  "(string \<times> real) list \<Rightarrow> (string \<times> real list) list \<Rightarrow> (string \<times> real list) list" where
  "accumulate [] d = d"
| "accumulate ((node, v) # rest) d =
     accumulate rest
       (AList.update node ((case map_of d node of None \<Rightarrow> [] | Some vs \<Rightarrow> vs) @ [v]) d)"

subsection \<open>One scenario, and the loop over the scenarios\<close>

text \<open>
  The body of the loop over the groups: load, plan, insert the leaks, solve, reduce.
  It returns the scenario's \<^verbatim>\<open>serviceability\<close> dictionary and the generator state it
  leaves behind. No exception is caught anywhere in the source.
\<close>

definition run_scenario ::
  "'g rng \<Rightarrow> wntr \<Rightarrow> network \<Rightarrow> config \<Rightarrow> scenario_row list \<Rightarrow> 'g
     \<Rightarrow> error + ((string \<times> real) list \<times> 'g)" where
  "run_scenario R L base cfg scenario_group g =
     (let wn = load_network base cfg in
      case apply_damage_states R wn scenario_group [] g of
        Inl e \<Rightarrow> Inl e
      | Inr (pipelines_orifice_areas, g') \<Rightarrow>
          (case apply_orifice_areas cfg wn pipelines_orifice_areas of
             Inl e \<Rightarrow> Inl e
           | Inr wn' \<Rightarrow>
               (case run_sim L wn' of
                  Inl e \<Rightarrow> Inl e
                | Inr results \<Rightarrow>
                    Inr (calc_serviceability L wn' results (node_name_list wn') [], g'))))"

fun run_scenarios ::
  "'g rng \<Rightarrow> wntr \<Rightarrow> network \<Rightarrow> config \<Rightarrow> (int \<times> scenario_row list) list
     \<Rightarrow> (string \<times> real list) list \<Rightarrow> 'g \<Rightarrow> error + ((string \<times> real list) list \<times> 'g)" where
  "run_scenarios R L base cfg [] d g = Inr (d, g)"
| "run_scenarios R L base cfg ((k, scenario_group) # rest) d g =
     (case run_scenario R L base cfg scenario_group g of
        Inl e \<Rightarrow> Inl e
      | Inr (sv, g') \<Rightarrow> run_scenarios R L base cfg rest (accumulate sv d) g')"

text \<open>
  \<^verbatim>\<open>scenarios_df.groupby('scenario_index')\<close>: the groups come in ascending order of
  the key, each with its rows in the order of the table.
\<close>

definition groupby_scenario_index :: "scenario_row list \<Rightarrow> (int \<times> scenario_row list) list" where
  "groupby_scenario_index df =
     map (\<lambda>k. (k, filter (\<lambda>r. scenario_index r = k) df)) (sort (remdups (map scenario_index df)))"

subsection \<open>The reshape to the long table (lines 92 and 93)\<close>

text \<open>
  \<^verbatim>\<open>DataFrame.from_dict\<close> makes one column per node and raises when the lists differ
  in length; its row labels are the positions \<open>0, 1, \<dots>\<close> in the lists. After the
  transpose these positions are the column labels, and \<^verbatim>\<open>melt\<close> turns each of them, in
  order, into the \<^verbatim>\<open>scenario_index\<close> of one row per node.
\<close>

definition to_long :: "(string \<times> real list) list \<Rightarrow> error + serviceability_row list" where
  "to_long d =
     (case d of
        [] \<Rightarrow> Inr []
      | (n0, v0) # _ \<Rightarrow>
          if list_all (\<lambda>(n, vs). length vs = length v0) d
          then Inr (concat (map (\<lambda>j. map (\<lambda>(n, vs). \<lparr> out_site_id = n, out_scenario_index = int j,
                                                       serviceability = vs ! j \<rparr>) d)
                                [0..<length v0]))
          else Inl ValueError)"

definition run_hydraulic_simulation ::
  "'g rng \<Rightarrow> wntr \<Rightarrow> network \<Rightarrow> scenario_row list \<Rightarrow> config \<Rightarrow> 'g
     \<Rightarrow> error + (serviceability_row list \<times> 'g)" where
  "run_hydraulic_simulation R L base scenarios_df cfg g =
     (case run_scenarios R L base cfg (groupby_scenario_index scenarios_df) [] g of
        Inl e \<Rightarrow> Inl e
      | Inr (serviceability_dict, g') \<Rightarrow>
          (case to_long serviceability_dict of
             Inl e \<Rightarrow> Inl e
           | Inr serviceability_df \<Rightarrow> Inr (serviceability_df, g')))"

subsection \<open>The fragility formulas as the specification words them\<close>

text \<open>
  Section 4.1 of the specification, steps 1 to 7, for a pipe of the given length (feet)
  and diameter under peak ground velocity \<open>pgv\<close>, when the Poisson draw is \<open>n\<close>. This
  definition follows the specification, not the code; the two are compared below.
\<close>

definition spec_damage_draw :: "real \<Rightarrow> real \<Rightarrow> real \<Rightarrow> nat \<Rightarrow> damage_draw" where
  "spec_damage_draw length_ft diam pgv n =
     \<lparr> repair_rate = 0.000241 * pgv / 100,
       link_length = length_ft * 0.3048,
       num_damages = n,
       leaks_n = \<lfloor>0.85 * real n\<rfloor>,
       breaks_n = \<lfloor>0.15 * real n\<rfloor>,
       area = pi * (diam / 2) ^ 2,
       orifice_area =
         min ((0.03 * real_of_int \<lfloor>0.85 * real n\<rfloor> + 0.2 * real_of_int \<lfloor>0.15 * real n\<rfloor>)
                * (pi * (diam / 2) ^ 2))
             (pi * (diam / 2) ^ 2),
       pf = 1 - exp (- ((0.000241 * pgv / 100) * (length_ft * 0.3048))) \<rparr>"

text \<open>Every entry of a plan names a pipe of the network and lies within that pipe's bore.\<close>

definition plan_within_bore :: "network \<Rightarrow> (string \<times> real) list \<Rightarrow> bool" where
  "plan_within_bore wn plan =
     list_all (\<lambda>(name, oa). case get_link wn name of
                                None \<Rightarrow> False
                              | Some p \<Rightarrow> 0 \<le> oa \<and> oa \<le> pi * (p_diameter p / 2) ^ 2) plan"

text \<open>The snapshot after one pipe of the loaded network has been split and its leak node
  given a leak of area \<open>oa\<close>.\<close>

definition leak_snapshot :: "config \<Rightarrow> network \<Rightarrow> string \<Rightarrow> pipe \<Rightarrow> real \<Rightarrow> network" where
  "leak_snapshot cfg wn name p oa =
     wn\<lparr> pipes := AList.update name (p\<lparr> p_length := p_length p * 0.5 \<rparr>) (pipes wn)
                     @ [(name @ ''_A'', p\<lparr> p_length := p_length p * 0.5 \<rparr>)],
          node_name_list := node_name_list wn @ [''Leak_'' @ name],
          junction_name_list := junction_name_list wn @ [''Leak_'' @ name],
          leaks := AList.update (''Leak_'' @ name)
                     \<lparr> leak_area = oa, leak_start = leak_start_time cfg, leak_end = leak_end_time cfg \<rparr>
                     (leaks wn) \<rparr>"

text \<open>The ratio the reducer stores for a node, and the test under which it stores one.\<close>

definition ratio :: "wntr \<Rightarrow> network \<Rightarrow> (string \<Rightarrow> real list) \<Rightarrow> string \<Rightarrow> real" where
  "ratio L wn results n = mean (results n) / mean (expected_demand L wn n)"

definition eligible :: "wntr \<Rightarrow> network \<Rightarrow> string \<Rightarrow> bool" where
  "eligible L wn n \<longleftrightarrow> n \<in> set (junction_name_list wn) \<and> mean (expected_demand L wn n) \<noteq> 0"




text \<open>
  Modelled from the spec: \<^verbatim>\<open>wntr.metrics.expected_demand\<close> is a library function
  whose code is not in the repository. Section 4.4 of the spec gives its contract: it
  reports the baseline required demand of the undamaged network. So on every snapshot
  obtained from the loaded network \<open>wn0\<close> by inserting leaks it gives each node the
  series it gives on \<open>wn0\<close> itself, and a name that is no junction of \<open>wn0\<close> (such as
  the junction a split inserts, which has no demand of its own) has no expected demand.
\<close>

definition baseline_metric :: "wntr \<Rightarrow> config \<Rightarrow> network \<Rightarrow> bool" where
  "baseline_metric L cfg wn0 \<longleftrightarrow>
     (\<forall>plan wn' n. apply_orifice_areas cfg wn0 plan = Inr wn'
        \<longrightarrow> expected_demand L wn' n = expected_demand L wn0 n)
   \<and> (\<forall>n. n \<notin> set (junction_name_list wn0) \<longrightarrow> mean (expected_demand L wn0 n) = 0)"




subsection \<open>Concrete inputs for evaluation\<close>

text \<open>
  A generator that reads its outcomes from a tape: each entry \<open>(n, k)\<close> holds the
  Poisson outcome \<open>n\<close> and, in hundredths, the uniform outcome of one pipe row. A rate
  of zero gives a Poisson outcome of zero, and every uniform outcome lies in
  \<open>[0, 1)\<close>, as those of \<^verbatim>\<open>np.random\<close> do.
\<close>

definition tape_rng :: "(nat \<times> nat) list rng" where
  "tape_rng =
     \<lparr> poisson = (\<lambda>lam g. (case g of [] \<Rightarrow> 0 | (n, k) # _ \<Rightarrow> if lam = 0 then 0 else n, g)),
       uniform = (\<lambda>g. case g of [] \<Rightarrow> (1/2, []) | (n, k) # rest \<Rightarrow> (real (k mod 100) / 100, rest)) \<rparr>"

text \<open>A network of two pipes, two junctions and a reservoir; \<open>P1\<close> is the pipe of the
  specification's worked example (1000 ft long, diameter 0.5).\<close>

definition example_network :: network where
  "example_network =
     \<lparr> pipes = [(''P1'', \<lparr> p_length = 1000, p_diameter = 1/2 \<rparr>),
                (''P2'', \<lparr> p_length = 500, p_diameter = 1 \<rparr>)],
       node_name_list = [''J1'', ''J2'', ''R1''],
       junction_name_list = [''J1'', ''J2''],
       leaks = [],
       opts = \<lparr> demand_model = ''DDA'', duration = 0, minimum_pressure = 0,
                required_pressure = 0 \<rparr> \<rparr>"

definition obs :: "int \<Rightarrow> string \<Rightarrow> real \<Rightarrow> scenario_row" where
  "obs k s v = \<lparr> scenario_index = k, site_id = s, PGA = 0, PGV = v \<rparr>"

definition example_config :: config where
  "example_config = \<lparr> cfg_duration = 24, leak_start_time = 2, leak_end_time = 12,
                       cfg_minimum_pressure = 0, cfg_required_pressure = 20 \<rparr>"

text \<open>The junctions \<open>J1\<close> and \<open>J2\<close> expect a demand of 1; any other junction, such as
  one inserted by a split, expects none.\<close>

definition unit_demand :: "network \<Rightarrow> string \<Rightarrow> real list" where
  "unit_demand wn n = (if n = ''J1'' \<or> n = ''J2'' then [1] else [0])"

text \<open>A solver that always converges and delivers the expected demand.\<close>

definition solver_full :: wntr where
  "solver_full = \<lparr> run_sim = (\<lambda>wn. Inr (unit_demand wn)), expected_demand = unit_demand \<rparr>"

text \<open>A solver under which the network is short of pressure: it delivers half of the
  expected demand, leak or no leak.\<close>

definition solver_deficit :: wntr where
  "solver_deficit = \<lparr> run_sim = (\<lambda>wn. Inr (\<lambda>n. map (\<lambda>x. x / 2) (unit_demand wn n))),
                       expected_demand = unit_demand \<rparr>"

text \<open>A solver that converges on a network without leaks and raises on one with a leak.\<close>

definition solver_diverging :: wntr where
  "solver_diverging =
     \<lparr> run_sim = (\<lambda>wn. if leaks wn = [] then Inr (unit_demand wn) else Inl SimulationError),
       expected_demand = unit_demand \<rparr>"

text \<open>A solver that delivers half of the expected demand when \<open>P1\<close> leaks, a quarter
  when only \<open>P2\<close> leaks, and all of it otherwise.\<close>

definition solver_leaky :: wntr where
  "solver_leaky =
     \<lparr> run_sim = (\<lambda>wn. Inr (\<lambda>n. map (\<lambda>x. x * (case map_of (leaks wn) ''Leak_P1'' of
                                                  Some l \<Rightarrow> 1/2
                                                | None \<Rightarrow> (case map_of (leaks wn) ''Leak_P2'' of
                                                             Some l \<Rightarrow> 1/4 | None \<Rightarrow> 1)))
                                  (unit_demand wn n))),
       expected_demand = unit_demand \<rparr>"

text \<open>A solver that delivers twice the expected demand at every node.\<close>

definition solver_surplus :: wntr where
  "solver_surplus = \<lparr> run_sim = (\<lambda>wn. Inr (\<lambda>n. map (\<lambda>x. 2 * x) (unit_demand wn n))),
                       expected_demand = unit_demand \<rparr>"

section \<open>Properties\<close>

subsection \<open>Auxiliary facts\<close>

lemma sum_upto6: "(\<Sum>m<6. f m) = f 0 + f 1 + f 2 + f 3 + f 4 + f (5::nat)" for f :: "nat \<Rightarrow> real"
  by (simp add: eval_nat_numeral lessThan_Suc)

lemma sin_poly6: "(\<Sum>m<6. sin_coeff m * x ^ m) = x - x^3/6 + x^5/120" for x :: real
  unfolding sum_upto6 by (simp add: sin_coeff_def fact_numeral)

lemma sin_approx6: "\<bar>sin x - (x - x^3/6 + x^5/120)\<bar> \<le> \<bar>x\<bar> ^ 6 / 720" for x :: real
  using Maclaurin_sin_bound [of x 6] unfolding sin_poly6 by (simp add: fact_numeral)

lemma pi_gt_314: "3.14 < pi"
proof -
  have "sin (2617/5000 :: real)
          \<le> (2617/5000) - (2617/5000)^3/6 + (2617/5000)^5/120 + \<bar>2617/5000\<bar> ^ 6 / 720"
    using sin_approx6 [of "2617/5000"] by linarith
  also have "\<dots> < 1/2" by (simp add: power_divide)
  also have "\<dots> = sin (pi/6)" by (simp add: sin_30)
  finally have "sin (2617/5000 :: real) < sin (pi/6)" .
  moreover have "- (pi/2) \<le> 2617/5000" "(2617/5000::real) \<le> pi/2" "-(pi/2) \<le> pi/6" "pi/6 \<le> pi/2"
    using pi_ge_two by simp_all
  ultimately have "2617/5000 < pi/6"
    using sin_mono_less_eq [of "2617/5000" "pi/6"] by blast
  then show ?thesis by simp
qed

lemma pi_lt_3143: "pi < 3.143"
proof -
  have "sin (pi/6) = 1/2" by (simp add: sin_30)
  also have "\<dots> < (2619/5000::real) - (2619/5000)^3/6 + (2619/5000)^5/120 - \<bar>2619/5000\<bar> ^ 6 / 720"
    by (simp add: power_divide)
  also have "\<dots> \<le> sin (2619/5000 :: real)"
    using sin_approx6 [of "2619/5000"] by linarith
  finally have "sin (pi/6) < sin (2619/5000 :: real)" .
  moreover have "- (pi/2) \<le> 2619/5000" "(2619/5000::real) \<le> pi/2" "-(pi/2) \<le> pi/6" "pi/6 \<le> pi/2"
    using pi_ge_two by simp_all
  ultimately have "pi/6 < 2619/5000"
    using sin_mono_less_eq [of "pi/6" "2619/5000"] by blast
  then show ?thesis by simp
qed

lemma damage_draw_of_eq_spec:
  "damage_draw_of p pgv n = spec_damage_draw (p_length p) (p_diameter p) pgv n"
  by (simp add: damage_draw_of_def spec_damage_draw_def Let_def py_int_def
      repair_rate_of_def link_length_of_def)

lemma damage_draw_three:
  "leaks_n (damage_draw_of \<lparr> p_length = l, p_diameter = 1/2 \<rparr> v 3) = 2"
  "breaks_n (damage_draw_of \<lparr> p_length = l, p_diameter = 1/2 \<rparr> v 3) = 0"
  "orifice_area (damage_draw_of \<lparr> p_length = l, p_diameter = 1/2 \<rparr> v 3) = 3 * pi / 800"
  by (simp_all add: damage_draw_of_def Let_def py_int_def power2_eq_square)

lemma apply_damage_states_pipe_row:
  assumes "get_link wn (site_id row) = Some p"
    and "0 \<le> repair_rate_of (PGV row) * link_length_of p"
    and "poisson R (repair_rate_of (PGV row) * link_length_of p) g = (n, g1)"
    and "uniform R g1 = (u, g2)"
  shows "apply_damage_states R wn (row # rows) plan g =
     apply_damage_states R wn rows
       (if u < pf (damage_draw_of p (PGV row) n)
        then AList.update (site_id row) (orifice_area (damage_draw_of p (PGV row) n)) plan
        else plan) g2"
  using assms by (simp add: Let_def)

lemma orifice_area_draw_bounds:
  "0 \<le> orifice_area (damage_draw_of p pgv n) \<and>
   orifice_area (damage_draw_of p pgv n) \<le> pi * (p_diameter p / 2) ^ 2"
proof -
  let ?a = "pi * (p_diameter p / 2) ^ 2"
  let ?lk = "py_int (0.85 * real n)" and ?br = "py_int (0.15 * real n)"
  have a: "0 \<le> ?a" by simp
  have "0 \<le> ?lk" "0 \<le> ?br" by (simp_all add: py_int_def)
  then have "0 \<le> 0.03 * real_of_int ?lk + 0.2 * real_of_int ?br" by simp
  then have "0 \<le> (0.03 * real_of_int ?lk + 0.2 * real_of_int ?br) * ?a"
    using a by (rule mult_nonneg_nonneg)
  then show ?thesis
    using a by (simp add: damage_draw_of_def Let_def)
qed

lemma set_update_subset: "set (AList.update k v al) \<subseteq> insert (k, v) (set al)"
  by (induction al) auto

lemma plan_within_bore_update:
  "plan_within_bore wn plan \<Longrightarrow> get_link wn name = Some p \<Longrightarrow> 0 \<le> oa \<Longrightarrow>
   oa \<le> pi * (p_diameter p / 2) ^ 2 \<Longrightarrow> plan_within_bore wn (AList.update name oa plan)"
  using set_update_subset [of name oa plan]
  by (auto simp: plan_within_bore_def list_all_iff)

lemma apply_damage_states_within_bore:
  "apply_damage_states R wn rows plan g = Inr (plan', g') \<Longrightarrow> plan_within_bore wn plan \<Longrightarrow>
   plan_within_bore wn plan'"
proof (induction rows arbitrary: plan g)
  case Nil
  then show ?case by simp
next
  case (Cons row rows)
  show ?case
  proof (cases "get_link wn (site_id row)")
    case None
    with Cons show ?thesis by simp
  next
    case (Some p)
    let ?lam = "repair_rate_of (PGV row) * link_length_of p"
    from Cons.prems(1) Some have nn: "\<not> ?lam < 0" by (auto split: if_splits)
    obtain n g1 where po: "poisson R ?lam g = (n, g1)" by (cases "poisson R ?lam g")
    obtain u g2 where un: "uniform R g1 = (u, g2)" by (cases "uniform R g1")
    let ?d = "damage_draw_of p (PGV row) n"
    let ?plan = "if u < pf ?d then AList.update (site_id row) (orifice_area ?d) plan else plan"
    from Cons.prems(1) Some nn po un
    have run: "apply_damage_states R wn rows ?plan g2 = Inr (plan', g')"
      by (simp add: Let_def)
    have "plan_within_bore wn ?plan"
      using Cons.prems(2) Some orifice_area_draw_bounds [of p "PGV row" n]
      by (simp add: plan_within_bore_update)
    with run show ?thesis by (rule Cons.IH)
  qed
qed

lemma example_plan_P1:
  "apply_damage_states tape_rng example_network [obs 0 ''P1'' 100] [] [(3, 0)]
     = Inr ([(''P1'', 3 * pi / 800)], [])"
  by (simp add: tape_rng_def example_network_def obs_def get_link_def Let_def
      repair_rate_of_def link_length_of_def damage_draw_of_def py_int_def power2_eq_square)

lemmas eval_defs = run_hydraulic_simulation_def groupby_scenario_index_def run_scenario_def
  load_network_def get_link_def pipe_name_list_def split_pipe_def add_leak_def to_long_def
  mean_def repair_rate_of_def link_length_of_def damage_draw_of_def py_int_def Let_def
  tape_rng_def example_network_def example_config_def obs_def

lemma get_link_None_iff: "get_link wn s = None \<longleftrightarrow> s \<notin> set (pipe_name_list wn)"
  by (simp add: get_link_def pipe_name_list_def map_of_eq_None_iff)

lemma apply_damage_states_filter:
  "apply_damage_states R wn rows plan g =
   apply_damage_states R wn (filter (\<lambda>r. site_id r \<in> set (pipe_name_list wn)) rows) plan g"
proof (induction rows arbitrary: plan g)
  case Nil
  show ?case by simp
next
  case (Cons row rows)
  show ?case
  proof (cases "get_link wn (site_id row)")
    case None
    then have "site_id row \<notin> set (pipe_name_list wn)" by (simp add: get_link_None_iff)
    with None Cons.IH show ?thesis by simp
  next
    case (Some p)
    then have "site_id row \<in> set (pipe_name_list wn)"
      using get_link_None_iff [of wn "site_id row"] by auto
    with Some Cons.IH show ?thesis
      by (simp add: Let_def split: prod.splits)
  qed
qed

lemma pipe_name_list_load [simp]: "pipe_name_list (load_network base cfg) = pipe_name_list base"
  by (simp add: pipe_name_list_def load_network_def)

lemma orifice_area_zero: "n \<le> 1 \<Longrightarrow> orifice_area (damage_draw_of p pgv n) = 0"
proof -
  assume "n \<le> 1"
  then consider "n = 0" | "n = 1" by linarith
  then have "py_int (0.85 * real n) = 0 \<and> py_int (0.15 * real n) = 0"
    by cases (simp_all add: py_int_def)
  then show ?thesis by (simp add: damage_draw_of_def Let_def)
qed

lemma apply_orifice_areas_single:
  assumes "get_link wn name = Some p"
    and "name @ ''_A'' \<notin> set (pipe_name_list wn)"
    and "''Leak_'' @ name \<notin> set (node_name_list wn)"
  shows "apply_orifice_areas cfg wn [(name, oa)] = Inr (leak_snapshot cfg wn name p oa)"
  using assms by (simp add: split_pipe_def add_leak_def leak_snapshot_def)

lemma map_of_calc_serviceability:
  "map_of (calc_serviceability L wn res names acc) n =
     (if n \<in> set names \<and> eligible L wn n then Some (ratio L wn res n) else map_of acc n)"
  by (induction names arbitrary: acc)
     (auto simp: Let_def AList.update_conv' eligible_def ratio_def)

lemma distinct_calc_serviceability:
  "distinct (map fst acc) \<Longrightarrow> distinct (map fst (calc_serviceability L wn res names acc))"
  by (induction names arbitrary: acc) (auto simp: Let_def AList.distinct_update)

lemma calc_serviceability_entry:
  "(n, v) \<in> set (calc_serviceability L wn res names []) \<longleftrightarrow>
     n \<in> set names \<and> eligible L wn n \<and> v = ratio L wn res n"
proof -
  have "distinct (map fst (calc_serviceability L wn res names []))"
    by (rule distinct_calc_serviceability) simp
  then have "(n, v) \<in> set (calc_serviceability L wn res names []) \<longleftrightarrow>
     map_of (calc_serviceability L wn res names []) n = Some v"
    by simp
  then show ?thesis by (auto simp: map_of_calc_serviceability)
qed

lemma run_scenario_InrE:
  assumes "run_scenario R L base cfg rows g = Inr (sv, g')"
  obtains plan wn' res where
    "apply_damage_states R (load_network base cfg) rows [] g = Inr (plan, g')"
    "apply_orifice_areas cfg (load_network base cfg) plan = Inr wn'"
    "run_sim L wn' = Inr res"
    "sv = calc_serviceability L wn' res (node_name_list wn') []"
  using assms unfolding run_scenario_def Let_def
  by (auto split: sum.splits prod.splits)

lemma pf_zero: "repair_rate_of pgv * link_length_of p = 0 \<Longrightarrow> pf (damage_draw_of p pgv n) = 0"
proof -
  assume z: "repair_rate_of pgv * link_length_of p = 0"
  have "- repair_rate_of pgv * link_length_of p = - (repair_rate_of pgv * link_length_of p)"
    by simp
  with z have "- repair_rate_of pgv * link_length_of p = 0" by simp
  then show ?thesis by (simp add: damage_draw_of_def Let_def)
qed

lemma apply_damage_states_no_failure:
  assumes "\<forall>row\<in>set rows. \<forall>p. get_link wn (site_id row) = Some p
              \<longrightarrow> repair_rate_of (PGV row) * link_length_of p = 0"
    and "\<forall>g. 0 \<le> fst (uniform R g)"
  shows "\<exists>g'. apply_damage_states R wn rows plan g = Inr (plan, g')"
  using assms(1)
proof (induction rows arbitrary: g)
  case Nil
  show ?case by simp
next
  case (Cons row rows)
  then have IH: "\<And>g. \<exists>g'. apply_damage_states R wn rows plan g = Inr (plan, g')" by simp
  show ?case
  proof (cases "get_link wn (site_id row)")
    case None
    with IH show ?thesis by simp
  next
    case (Some p)
    let ?lam = "repair_rate_of (PGV row) * link_length_of p"
    from Some Cons.prems have z: "?lam = 0" by simp
    then have nn: "0 \<le> ?lam" by (simp only: order_refl)
    obtain n g1 where po: "poisson R ?lam g = (n, g1)" by (cases "poisson R ?lam g")
    obtain u g2 where un: "uniform R g1 = (u, g2)" by (cases "uniform R g1")
    have "0 \<le> u" using assms(2) [rule_format, of g1] un by simp
    then have nf: "\<not> u < pf (damage_draw_of p (PGV row) n)" using pf_zero [OF z] by simp
    have "apply_damage_states R wn (row # rows) plan g = apply_damage_states R wn rows plan g2"
      using apply_damage_states_pipe_row [OF Some nn po un, of rows plan] nf by simp
    with IH [of g2] show ?thesis by simp
  qed
qed

lemma run_scenario_no_rows:
  "run_scenario R L base cfg [] g =
     (case run_sim L (load_network base cfg) of
        Inl e \<Rightarrow> Inl e
      | Inr res \<Rightarrow> Inr (calc_serviceability L (load_network base cfg) res
                         (node_name_list (load_network base cfg)) [], g))"
  by (simp add: run_scenario_def Let_def)

lemma run_scenario_empty_plan:
  assumes "apply_damage_states R (load_network base cfg) rows [] g = Inr ([], g')"
  shows "run_scenario R L base cfg rows g =
     (case run_sim L (load_network base cfg) of
        Inl e \<Rightarrow> Inl e
      | Inr res \<Rightarrow> Inr (calc_serviceability L (load_network base cfg) res
                         (node_name_list (load_network base cfg)) [], g'))"
  unfolding run_scenario_def Let_def
  by (simp only: assms sum.case prod.case apply_orifice_areas.simps)

lemma tape_uniform_nonneg: "\<forall>g. 0 \<le> fst (uniform tape_rng g)"
  by (auto simp: tape_rng_def split: list.splits)

lemma run_scenarios_append:
  "run_scenarios R L base cfg (gs1 @ gs2) d g =
     (case run_scenarios R L base cfg gs1 d g of
        Inl e \<Rightarrow> Inl e
      | Inr (d1, g1) \<Rightarrow> run_scenarios R L base cfg gs2 d1 g1)"
  by (induction gs1 arbitrary: d g) (auto split: sum.splits)

lemma groupby_three:
  "groupby_scenario_index [obs 0 ''J1'' 100, obs 1 ''P1'' 100, obs 2 ''P2'' 0]
     = [(0, [obs 0 ''J1'' 100])] @ (1, [obs 1 ''P1'' 100]) # [(2, [obs 2 ''P2'' 0])]"
  by (simp add: groupby_scenario_index_def obs_def)

lemma exp_neg_not_small: "0 \<le> x \<Longrightarrow> x \<le> 9/10 \<Longrightarrow> \<not> exp (- x) * 100 < (1::real)"
proof -
  assume "0 \<le> x" "x \<le> 9/10"
  have "1 + (- x) \<le> exp (- x)" by (rule exp_ge_add_one_self)
  with \<open>x \<le> 9/10\<close> show ?thesis by simp
qed










lemma to_long_total: "to_long d = Inl ValueError \<or> (\<exists>t. to_long d = Inr t)"
  by (auto simp: to_long_def split: list.splits)


lemma run_scenario_filter:
  "run_scenario R L base cfg rows g =
     run_scenario R L base cfg (filter (\<lambda>r. site_id r \<in> set (pipe_name_list base)) rows) g"
proof -
  have "apply_damage_states R (load_network base cfg) rows [] g =
        apply_damage_states R (load_network base cfg)
          (filter (\<lambda>r. site_id r \<in> set (pipe_name_list base)) rows) [] g"
    using apply_damage_states_filter [of R "load_network base cfg" rows "[]" g] by simp
  then show ?thesis by (simp add: run_scenario_def)
qed

lemma run_scenarios_filter:
  "run_scenarios R L base cfg gs d g =
     run_scenarios R L base cfg
       (map (\<lambda>(k, grp). (k, filter (\<lambda>r. site_id r \<in> set (pipe_name_list base)) grp)) gs) d g"
proof (induction gs arbitrary: d g)
  case Nil
  show ?case by simp
next
  case (Cons a gs)
  obtain k grp where a: "a = (k, grp)" by (cases a)
  show ?case
    using Cons.IH run_scenario_filter [of R L base cfg grp g]
    by (simp add: a split: sum.splits)
qed

lemma groupby_canonical:
  "groupby_scenario_index df =
     map (\<lambda>k. (k, filter (\<lambda>r. scenario_index r = k) df))
         (sorted_list_of_set (scenario_index ` set df))"
proof -
  have "sort (remdups (map scenario_index df)) = sorted_list_of_set (scenario_index ` set df)"
    using sorted_list_of_set_sort_remdups [of "map scenario_index df"] by simp
  then show ?thesis by (simp add: groupby_scenario_index_def)
qed

lemma groupby_keys_sorted:
  "sorted (map fst (groupby_scenario_index df)) \<and> distinct (map fst (groupby_scenario_index df))"
  by (simp add: groupby_canonical comp_def)

lemma groupby_cong:
  assumes "\<forall>k. filter (\<lambda>r. scenario_index r = k) df1 = filter (\<lambda>r. scenario_index r = k) df2"
  shows "groupby_scenario_index df1 = groupby_scenario_index df2"
proof -
  have mem: "k \<in> scenario_index ` set df \<longleftrightarrow> filter (\<lambda>r. scenario_index r = k) df \<noteq> []"
    for k and df :: "scenario_row list"
    by (auto simp: filter_empty_conv)
  have "k \<in> scenario_index ` set df1 \<longleftrightarrow> k \<in> scenario_index ` set df2" for k
    unfolding mem using assms by simp
  then have "scenario_index ` set df1 = scenario_index ` set df2"
    by (rule set_eqI)
  then show ?thesis using assms by (simp add: groupby_canonical)
qed

lemma three_blocks_same_groups:
  "\<forall>k. filter (\<lambda>r. scenario_index r = k) [obs 1 ''P2'' 100, obs 2 ''J1'' 0, obs 0 ''P1'' 100]
       = filter (\<lambda>r. scenario_index r = k) [obs 0 ''P1'' 100, obs 1 ''P2'' 100, obs 2 ''J1'' 0]"
  by (auto simp: obs_def)

lemma surplus_baseline:
  "baseline_metric solver_surplus example_config (load_network example_network example_config)"
  by (simp add: baseline_metric_def solver_surplus_def unit_demand_def load_network_def
      example_network_def mean_def)

lemma surplus_run:
  "run_scenario tape_rng solver_surplus example_network example_config
      [obs 0 ''P1'' 100] [(3, 0)] = Inr ([(''J1'', 2), (''J2'', 2)], [])"
  by (simp add: eval_defs solver_surplus_def unit_demand_def power2_eq_square)

















subsection \<open>The damage draw\<close>

text \<open>
  Claim C1. A row that names a pipe is processed by the fragility formulas of the
  specification: with \<open>n\<close> the Poisson outcome at rate
  \<open>0.000241 * PGV / 100 * (length * 0.3048)\<close> and \<open>u\<close> the uniform outcome drawn after
  it, the values the code computes are those of the specification (repair rate, length
  in metres, leak and break counts by floor, area, capped orifice area, failure
  probability), and the pipe enters the plan with that orifice area exactly when
  \<open>u\<close> is below the failure probability. For a pipe of diameter 0.5 and three damages
  there are 2 leaks, 0 breaks and an orifice area within \<open>0.00001\<close> of \<open>0.01178\<close>.
\<close>

theorem damage_draw_follows_fragility_formulas:
  assumes "get_link wn (site_id row) = Some p"
    and "0 \<le> 0.000241 * PGV row / 100 * (p_length p * 0.3048)"
    and "poisson R (0.000241 * PGV row / 100 * (p_length p * 0.3048)) g = (n, g1)"
    and "uniform R g1 = (u, g2)"
  shows "damage_draw_of p (PGV row) n = spec_damage_draw (p_length p) (p_diameter p) (PGV row) n
    \<and> apply_damage_states R wn (row # rows) plan g =
        apply_damage_states R wn rows
          (if u < pf (spec_damage_draw (p_length p) (p_diameter p) (PGV row) n)
           then AList.update (site_id row)
                  (orifice_area (spec_damage_draw (p_length p) (p_diameter p) (PGV row) n)) plan
           else plan) g2
    \<and> leaks_n (damage_draw_of \<lparr> p_length = l, p_diameter = 0.5 \<rparr> v 3) = 2
    \<and> breaks_n (damage_draw_of \<lparr> p_length = l, p_diameter = 0.5 \<rparr> v 3) = 0
    \<and> \<bar>orifice_area (damage_draw_of \<lparr> p_length = l, p_diameter = 0.5 \<rparr> v 3) - 0.01178\<bar> < 0.00001"
proof -
  have rate: "repair_rate_of (PGV row) * link_length_of p
                = 0.000241 * PGV row / 100 * (p_length p * 0.3048)"
    by (simp add: repair_rate_of_def link_length_of_def)
  have step: "apply_damage_states R wn (row # rows) plan g =
        apply_damage_states R wn rows
          (if u < pf (damage_draw_of p (PGV row) n)
           then AList.update (site_id row) (orifice_area (damage_draw_of p (PGV row) n)) plan
           else plan) g2"
    using assms by (intro apply_damage_states_pipe_row) (simp_all only: rate)
  have oa: "orifice_area (damage_draw_of \<lparr> p_length = l, p_diameter = 0.5 \<rparr> v 3) = 3 * pi / 800"
    using damage_draw_three(3) [of l v] by simp
  have "157 / 50 < pi" "pi < 3143 / 1000"
    using pi_gt_314 pi_lt_3143 by simp_all
  then have "\<bar>3 * pi / 800 - 589 / 50000\<bar> < (1 / 100000::real)"
    by linarith
  then have near: "\<bar>3 * pi / 800 - 0.01178\<bar> < (0.00001::real)"
    by simp
  have approx:
    "\<bar>orifice_area (damage_draw_of \<lparr> p_length = l, p_diameter = 0.5 \<rparr> v 3) - 0.01178\<bar> < 0.00001"
    unfolding oa by (rule near)
  have cnt: "leaks_n (damage_draw_of \<lparr> p_length = l, p_diameter = 0.5 \<rparr> v 3) = 2"
    "breaks_n (damage_draw_of \<lparr> p_length = l, p_diameter = 0.5 \<rparr> v 3) = 0"
    using damage_draw_three(1,2) [of l v] by simp_all
  show ?thesis
    using step approx cnt by (simp add: damage_draw_of_eq_spec)
qed

theorem damage_draw_follows_fragility_formulas_witness:
  "get_link example_network (site_id (obs 0 ''P1'' 100)) = Some \<lparr> p_length = 1000, p_diameter = 1/2 \<rparr>
   \<and> poisson tape_rng (0.000241 * 100 / 100 * (1000 * 0.3048)) [(3, 0)] = (3, [(3, 0)])
   \<and> uniform tape_rng [(3, 0)] = (0, [])
   \<and> apply_damage_states tape_rng example_network [obs 0 ''P1'' 100] [] [(3, 0)]
       = Inr ([(''P1'', orifice_area (spec_damage_draw 1000 (1/2) 100 3))], [])"
proof -
  let ?p = "\<lparr> p_length = 1000, p_diameter = 1/2 \<rparr>"
  have h1: "get_link example_network (site_id (obs 0 ''P1'' 100)) = Some ?p"
    by (simp add: example_network_def obs_def get_link_def)
  have h2: "0 \<le> 0.000241 * PGV (obs 0 ''P1'' 100) / 100 * (p_length ?p * 0.3048)"
    by (simp add: obs_def)
  have h3: "poisson tape_rng (0.000241 * PGV (obs 0 ''P1'' 100) / 100 * (p_length ?p * 0.3048)) [(3, 0)]
              = (3, [(3, 0)])"
    by (simp add: tape_rng_def obs_def)
  have h4: "uniform tape_rng [(3, 0)] = (0, [])"
    by (simp add: tape_rng_def)
  have pos: "(0::real) < pf (spec_damage_draw 1000 (1/2) 100 3)"
    by (simp add: spec_damage_draw_def)
  from damage_draw_follows_fragility_formulas [OF h1 h2 h3 h4, of "[]" "[]"] h1 h3 h4 pos
  show ?thesis by (simp add: obs_def)
qed

text \<open>
  Claim C7. Whatever the pipe, the intensity and the Poisson outcome, the orifice area
  the code computes is at least 0 and at most the full-bore area \<open>pi * (diameter/2)^2\<close>;
  hence every entry of the plan that \<^verbatim>\<open>apply_damage_states\<close> returns names a pipe and
  lies within that pipe's bore.
\<close>

theorem orifice_area_within_bore:
  "0 \<le> orifice_area (damage_draw_of p pgv n)
   \<and> orifice_area (damage_draw_of p pgv n) \<le> pi * (p_diameter p / 2) ^ 2
   \<and> (apply_damage_states R wn rows [] g = Inr (plan, g') \<longrightarrow> plan_within_bore wn plan)"
proof -
  have empty: "plan_within_bore wn []" by (simp add: plan_within_bore_def)
  have "plan_within_bore wn plan" if "apply_damage_states R wn rows [] g = Inr (plan, g')"
    using that empty by (rule apply_damage_states_within_bore)
  then show ?thesis using orifice_area_draw_bounds [of p pgv n] by simp
qed

theorem orifice_area_within_bore_witness:
  "apply_damage_states tape_rng example_network [obs 0 ''P1'' 100] [] [(3, 0)]
     = Inr ([(''P1'', 3 * pi / 800)], [])
   \<and> plan_within_bore example_network [(''P1'', 3 * pi / 800)]
   \<and> 0 \<le> orifice_area (damage_draw_of \<lparr> p_length = 1000, p_diameter = 1/2 \<rparr> 100 3)
   \<and> orifice_area (damage_draw_of \<lparr> p_length = 1000, p_diameter = 1/2 \<rparr> 100 3) \<le> pi * (1/2 / 2) ^ 2"
  using orifice_area_within_bore [of "\<lparr> p_length = 1000, p_diameter = 1/2 \<rparr>" 100 3
      tape_rng example_network "[obs 0 ''P1'' 100]" "[(3, 0)]" "[(''P1'', 3 * pi / 800)]" "[]"]
    example_plan_P1
  by simp

subsection \<open>Rows that name no pipe\<close>

text \<open>
  Claim C8, as the code has it. A row whose \<^verbatim>\<open>site_id\<close> is not a pipe name of the
  network is passed over without a draw, without a plan entry and without an error:
  the plan, and the scenario the row belongs to, are what they are without the rows of
  that kind, and the batch is the run of the groups so reduced. The row still takes
  part in the grouping: a scenario none of whose rows names a pipe runs all the same,
  on the undamaged network. Nothing validates the table before the scenarios run.
\<close>

theorem unknown_site_rows_are_passed_over:
  "apply_damage_states R wn rows plan g =
     apply_damage_states R wn (filter (\<lambda>r. site_id r \<in> set (pipe_name_list wn)) rows) plan g
   \<and> run_scenario R L base cfg rows g =
       run_scenario R L base cfg (filter (\<lambda>r. site_id r \<in> set (pipe_name_list base)) rows) g
   \<and> ((\<forall>r\<in>set rows. site_id r \<notin> set (pipe_name_list base)) \<longrightarrow>
         run_scenario R L base cfg rows g = run_scenario R L base cfg [] g)
   \<and> run_hydraulic_simulation R L base df cfg g =
       (case run_scenarios R L base cfg
               (map (\<lambda>(k, grp). (k, filter (\<lambda>r. site_id r \<in> set (pipe_name_list base)) grp))
                    (groupby_scenario_index df)) [] g of
          Inl e \<Rightarrow> Inl e
        | Inr (d, g') \<Rightarrow> (case to_long d of Inl e \<Rightarrow> Inl e | Inr t \<Rightarrow> Inr (t, g')))"
proof -
  have none: "run_scenario R L base cfg rows g = run_scenario R L base cfg [] g"
    if "\<forall>r\<in>set rows. site_id r \<notin> set (pipe_name_list base)"
  proof -
    from that have "filter (\<lambda>r. site_id r \<in> set (pipe_name_list base)) rows = []"
      by (simp add: filter_empty_conv)
    with run_scenario_filter [of R L base cfg rows g] show ?thesis by simp
  qed
  have batch: "run_hydraulic_simulation R L base df cfg g =
       (case run_scenarios R L base cfg
               (map (\<lambda>(k, grp). (k, filter (\<lambda>r. site_id r \<in> set (pipe_name_list base)) grp))
                    (groupby_scenario_index df)) [] g of
          Inl e \<Rightarrow> Inl e
        | Inr (d, g') \<Rightarrow> (case to_long d of Inl e \<Rightarrow> Inl e | Inr t \<Rightarrow> Inr (t, g')))"
    unfolding run_hydraulic_simulation_def
    by (subst run_scenarios_filter) (rule refl)
  show ?thesis
    using apply_damage_states_filter [of R wn rows plan g] run_scenario_filter [of R L base cfg rows g]
      none batch
    by blast
qed

theorem unknown_site_rows_are_passed_over_witness:
  "site_id (obs 0 ''X9'' 100) \<notin> set (pipe_name_list example_network)
   \<and> run_scenario tape_rng solver_full example_network example_config [obs 0 ''X9'' 100] [(3, 0)]
       = run_scenario tape_rng solver_full example_network example_config [] [(3, 0)]
   \<and> run_scenario tape_rng solver_full example_network example_config [] [(3, 0)]
       = Inr ([(''J1'', 1), (''J2'', 1)], [(3, 0)])"
proof -
  have h: "\<forall>r\<in>set [obs 0 ''X9'' 100]. site_id r \<notin> set (pipe_name_list example_network)"
    by (simp add: obs_def pipe_name_list_def example_network_def)
  have a: "site_id (obs 0 ''X9'' 100) \<notin> set (pipe_name_list example_network)"
    using h by simp
  note main = unknown_site_rows_are_passed_over
      [of tape_rng example_network "[obs 0 ''X9'' 100]" "[]" "[(3, 0)]" solver_full
          example_network example_config "[]"]
  from main h have b: "run_scenario tape_rng solver_full example_network example_config
                         [obs 0 ''X9'' 100] [(3, 0)]
       = run_scenario tape_rng solver_full example_network example_config [] [(3, 0)]"
    by blast
  have c: "run_scenario tape_rng solver_full example_network example_config [] [(3, 0)]
       = Inr ([(''J1'', 1), (''J2'', 1)], [(3, 0)])"
    by (simp add: eval_defs solver_full_def unit_demand_def)
  show ?thesis by (rule conjI [OF a conjI [OF b c]])
qed

text \<open>
  The claim as the specification states it fails: a table with a row for the unknown
  site \<open>X9\<close> is not rejected; the batch returns its table.
\<close>

theorem unknown_site_not_rejected:
  "run_hydraulic_simulation tape_rng solver_full example_network
      [obs 0 ''X9'' 100, obs 0 ''P1'' 0] example_config [(3, 0)]
     = Inr ([\<lparr> out_site_id = ''J1'', out_scenario_index = 0, serviceability = 1 \<rparr>,
             \<lparr> out_site_id = ''J2'', out_scenario_index = 0, serviceability = 1 \<rparr>], [])"
  by (simp add: eval_defs solver_full_def unit_demand_def)

subsection \<open>A failed pipe whose orifice area is zero\<close>

text \<open>
  Claim C9. When the Poisson outcome of a pipe row is 0 or 1, both counts floor to zero
  and the orifice area is 0; if the uniform outcome is nevertheless below the failure
  probability, the pipe enters the plan with area 0, the pipe is split, a leak of area
  0 is attached to the new node, and that snapshot is the one the solver receives.
  Nothing filters the zero area out.
\<close>

theorem failed_pipe_with_zero_area_gets_leak:
  assumes "get_link base (site_id row) = Some p"
    and "0 \<le> repair_rate_of (PGV row) * link_length_of p"
    and "poisson R (repair_rate_of (PGV row) * link_length_of p) g = (n, g1)"
    and "n \<le> 1"
    and "uniform R g1 = (u, g2)"
    and "u < pf (damage_draw_of p (PGV row) n)"
    and "site_id row @ ''_A'' \<notin> set (pipe_name_list base)"
    and "''Leak_'' @ site_id row \<notin> set (node_name_list base)"
  shows "orifice_area (damage_draw_of p (PGV row) n) = 0
    \<and> apply_damage_states R (load_network base cfg) [row] [] g = Inr ([(site_id row, 0)], g2)
    \<and> apply_orifice_areas cfg (load_network base cfg) [(site_id row, 0)]
         = Inr (leak_snapshot cfg (load_network base cfg) (site_id row) p 0)
    \<and> map_of (leaks (leak_snapshot cfg (load_network base cfg) (site_id row) p 0)) (''Leak_'' @ site_id row)
         = Some \<lparr> leak_area = 0, leak_start = leak_start_time cfg, leak_end = leak_end_time cfg \<rparr>
    \<and> run_scenario R L base cfg [row] g =
         (case run_sim L (leak_snapshot cfg (load_network base cfg) (site_id row) p 0) of
            Inl e \<Rightarrow> Inl e
          | Inr results \<Rightarrow>
              Inr (calc_serviceability L (leak_snapshot cfg (load_network base cfg) (site_id row) p 0)
                     results (node_name_list (leak_snapshot cfg (load_network base cfg) (site_id row) p 0)) [],
                   g2))"
proof -
  let ?wn = "load_network base cfg"
  have link: "get_link ?wn (site_id row) = Some p"
    using assms(1) by (simp add: get_link_def load_network_def)
  have zero: "orifice_area (damage_draw_of p (PGV row) n) = 0"
    using assms(4) by (rule orifice_area_zero)
  have plan: "apply_damage_states R ?wn [row] [] g = Inr ([(site_id row, 0)], g2)"
    using link assms(2,3,5,6) zero by (simp add: Let_def)
  have names: "site_id row @ ''_A'' \<notin> set (pipe_name_list ?wn)"
    "''Leak_'' @ site_id row \<notin> set (node_name_list ?wn)"
    using assms(7,8) by (simp_all add: pipe_name_list_def load_network_def)
  have snap: "apply_orifice_areas cfg ?wn [(site_id row, 0)]
                = Inr (leak_snapshot cfg ?wn (site_id row) p 0)"
    using link names by (rule apply_orifice_areas_single)
  have leak: "map_of (leaks (leak_snapshot cfg ?wn (site_id row) p 0)) (''Leak_'' @ site_id row)
         = Some \<lparr> leak_area = 0, leak_start = leak_start_time cfg, leak_end = leak_end_time cfg \<rparr>"
    by (simp add: leak_snapshot_def AList.update_conv')
  have run: "run_scenario R L base cfg [row] g =
         (case run_sim L (leak_snapshot cfg ?wn (site_id row) p 0) of
            Inl e \<Rightarrow> Inl e
          | Inr results \<Rightarrow>
              Inr (calc_serviceability L (leak_snapshot cfg ?wn (site_id row) p 0)
                     results (node_name_list (leak_snapshot cfg ?wn (site_id row) p 0)) [], g2))"
    unfolding run_scenario_def Let_def by (simp only: plan snap sum.case prod.case)
  show ?thesis using zero plan snap leak run by blast
qed


theorem failed_pipe_with_zero_area_gets_leak_witness:
  "get_link example_network (site_id (obs 0 ''P1'' 100)) = Some \<lparr> p_length = 1000, p_diameter = 1/2 \<rparr>
   \<and> poisson tape_rng (repair_rate_of 100 * link_length_of \<lparr> p_length = 1000, p_diameter = 1/2 \<rparr>) [(1, 0)]
        = (1, [(1, 0)])
   \<and> uniform tape_rng [(1, 0)] = (0, [])
   \<and> 0 < pf (damage_draw_of \<lparr> p_length = 1000, p_diameter = 1/2 \<rparr> 100 1)
   \<and> apply_damage_states tape_rng (load_network example_network example_config)
        [obs 0 ''P1'' 100] [] [(1, 0)] = Inr ([(''P1'', 0)], [])
   \<and> map_of (leaks (leak_snapshot example_config (load_network example_network example_config) ''P1''
                      \<lparr> p_length = 1000, p_diameter = 1/2 \<rparr> 0)) ''Leak_P1''
        = Some \<lparr> leak_area = 0, leak_start = 2, leak_end = 12 \<rparr>
   \<and> run_scenario tape_rng solver_full example_network example_config [obs 0 ''P1'' 100] [(1, 0)]
        = Inr ([(''J1'', 1), (''J2'', 1)], [])"
proof -
  let ?p = "\<lparr> p_length = 1000, p_diameter = 1/2 \<rparr>"
  let ?row = "obs 0 ''P1'' 100"
  have h1: "get_link example_network (site_id ?row) = Some ?p"
    by (simp add: example_network_def obs_def get_link_def)
  have h2: "0 \<le> repair_rate_of (PGV ?row) * link_length_of ?p"
    by (simp add: obs_def repair_rate_of_def link_length_of_def)
  have h3: "poisson tape_rng (repair_rate_of (PGV ?row) * link_length_of ?p) [(1, 0)] = (1, [(1, 0)])"
    by (simp add: tape_rng_def obs_def repair_rate_of_def link_length_of_def)
  have h4: "(1::nat) \<le> 1" by simp
  have h5: "uniform tape_rng [(1, 0)] = (0, [])"
    by (simp add: tape_rng_def)
  have h6: "0 < pf (damage_draw_of ?p (PGV ?row) 1)"
    by (simp add: damage_draw_of_def Let_def obs_def repair_rate_of_def link_length_of_def)
  have h7: "site_id ?row @ ''_A'' \<notin> set (pipe_name_list example_network)"
    by (simp add: example_network_def obs_def pipe_name_list_def)
  have h8: "''Leak_'' @ site_id ?row \<notin> set (node_name_list example_network)"
    by (simp add: example_network_def obs_def)
  note main = failed_pipe_with_zero_area_gets_leak
      [OF h1 h2 h3 h4 h5 h6 h7 h8, of example_config solver_full]
  have sv: "(case run_sim solver_full
                  (leak_snapshot example_config (load_network example_network example_config)
                     (site_id ?row) ?p 0) of
              Inl e \<Rightarrow> Inl e
            | Inr results \<Rightarrow>
                Inr (calc_serviceability solver_full
                       (leak_snapshot example_config (load_network example_network example_config)
                          (site_id ?row) ?p 0)
                       results
                       (node_name_list
                          (leak_snapshot example_config (load_network example_network example_config)
                             (site_id ?row) ?p 0)) [], []))
           = Inr ([(''J1'', 1), (''J2'', 1)], [])"
    by (simp add: solver_full_def unit_demand_def leak_snapshot_def load_network_def
        example_network_def obs_def mean_def)
  from main h1 h3 h5 h6 sv show ?thesis
    by (simp add: obs_def example_config_def)
qed


subsection \<open>The serviceability ratio\<close>

text \<open>
  Claim C3. Under the contract of the expected-demand metric, the records a scenario
  emits are the junctions of the solved snapshot whose mean baseline expected demand is
  not zero, and each record's serviceability is the mean of the node's demand series,
  as the solver returned it for the damaged snapshot, divided by the mean of the
  node's expected demand on the freshly loaded, undamaged network. The ratio is stored
  as computed: nothing clamps it, and a value above 1 stays.
\<close>

theorem serviceability_is_ratio_to_baseline_demand:
  assumes "run_scenario R L base cfg rows g = Inr (sv, g')"
    and "baseline_metric L cfg (load_network base cfg)"
  shows "\<exists>plan wn' res.
           apply_damage_states R (load_network base cfg) rows [] g = Inr (plan, g')
         \<and> apply_orifice_areas cfg (load_network base cfg) plan = Inr wn'
         \<and> run_sim L wn' = Inr res
         \<and> (\<forall>n v. (n, v) \<in> set sv \<longleftrightarrow>
               n \<in> set (node_name_list wn') \<and> n \<in> set (junction_name_list wn')
               \<and> mean (expected_demand L (load_network base cfg) n) \<noteq> 0
               \<and> v = mean (res n) / mean (expected_demand L (load_network base cfg) n))"
proof -
  from assms(1) obtain plan wn' res where
    a: "apply_damage_states R (load_network base cfg) rows [] g = Inr (plan, g')"
    and b: "apply_orifice_areas cfg (load_network base cfg) plan = Inr wn'"
    and c: "run_sim L wn' = Inr res"
    and d: "sv = calc_serviceability L wn' res (node_name_list wn') []"
    by (rule run_scenario_InrE)
  have same: "expected_demand L wn' n = expected_demand L (load_network base cfg) n" for n
    using assms(2) b unfolding baseline_metric_def by blast
  have "\<forall>n v. (n, v) \<in> set sv \<longleftrightarrow>
               n \<in> set (node_name_list wn') \<and> n \<in> set (junction_name_list wn')
               \<and> mean (expected_demand L (load_network base cfg) n) \<noteq> 0
               \<and> v = mean (res n) / mean (expected_demand L (load_network base cfg) n)"
    unfolding d calc_serviceability_entry by (simp add: eligible_def ratio_def same)
  with a b c show ?thesis by blast
qed

theorem serviceability_is_ratio_to_baseline_demand_witness:
  "run_scenario tape_rng solver_surplus example_network example_config
      [obs 0 ''P1'' 100] [(3, 0)] = Inr ([(''J1'', 2), (''J2'', 2)], [])
   \<and> baseline_metric solver_surplus example_config (load_network example_network example_config)
   \<and> apply_damage_states tape_rng (load_network example_network example_config)
        [obs 0 ''P1'' 100] [] [(3, 0)] = Inr ([(''P1'', 3 * pi / 800)], [])
   \<and> mean (expected_demand solver_surplus (load_network example_network example_config) ''J1'') = 1
   \<and> (\<exists>plan wn' res.
           apply_damage_states tape_rng (load_network example_network example_config)
             [obs 0 ''P1'' 100] [] [(3, 0)] = Inr (plan, [])
         \<and> apply_orifice_areas example_config (load_network example_network example_config) plan = Inr wn'
         \<and> run_sim solver_surplus wn' = Inr res
         \<and> (\<forall>n v. (n, v) \<in> set [(''J1'', 2), (''J2'', 2)] \<longleftrightarrow>
               n \<in> set (node_name_list wn') \<and> n \<in> set (junction_name_list wn')
               \<and> mean (expected_demand solver_surplus (load_network example_network example_config) n) \<noteq> 0
               \<and> v = mean (res n)
                     / mean (expected_demand solver_surplus (load_network example_network example_config) n)))"
proof -
  have plan: "apply_damage_states tape_rng (load_network example_network example_config)
        [obs 0 ''P1'' 100] [] [(3, 0)] = Inr ([(''P1'', 3 * pi / 800)], [])"
    by (simp add: eval_defs power2_eq_square)
  have one: "mean (expected_demand solver_surplus (load_network example_network example_config) ''J1'') = 1"
    by (simp add: solver_surplus_def unit_demand_def mean_def)
  note main = serviceability_is_ratio_to_baseline_demand [OF surplus_run surplus_baseline]
  show ?thesis
    by (rule conjI [OF surplus_run conjI [OF surplus_baseline conjI [OF plan conjI [OF one main]]]])
qed

subsection \<open>A scenario without shaking\<close>

text \<open>
  Claim C6, as the code has it. Let every row of a scenario that names a pipe have
  \<open>repair_rate * length_m = 0\<close>, and let the uniform draws be non-negative, as those
  of \<^verbatim>\<open>np.random.uniform()\<close> are. Then the failure probability of each such row is 0,
  the plan is empty, the snapshot is the freshly loaded network (no split, no leak),
  and the scenario returns what the run of the undamaged network returns: each emitted
  node has the baseline serviceability, which is 1 exactly when the solver delivers to
  that node a mean demand equal to its mean expected demand.
\<close>

theorem zero_rate_scenario_is_undamaged:
  assumes "\<forall>row\<in>set rows. \<forall>p. get_link base (site_id row) = Some p
              \<longrightarrow> repair_rate_of (PGV row) * link_length_of p = 0"
    and "\<forall>g. 0 \<le> fst (uniform R g)"
  shows "(\<forall>row\<in>set rows. \<forall>p n. get_link base (site_id row) = Some p
              \<longrightarrow> pf (damage_draw_of p (PGV row) n) = 0)
    \<and> (\<exists>g'. apply_damage_states R (load_network base cfg) rows [] g = Inr ([], g')
           \<and> apply_orifice_areas cfg (load_network base cfg) [] = Inr (load_network base cfg)
           \<and> run_scenario R L base cfg rows g =
                (case run_sim L (load_network base cfg) of
                   Inl e \<Rightarrow> Inl e
                 | Inr res \<Rightarrow> Inr (calc_serviceability L (load_network base cfg) res
                                    (node_name_list (load_network base cfg)) [], g')))
    \<and> map_sum id fst (run_scenario R L base cfg rows g)
        = map_sum id fst (run_scenario R L base cfg [] g)
    \<and> (\<forall>sv g' res n v. run_scenario R L base cfg rows g = Inr (sv, g')
          \<longrightarrow> run_sim L (load_network base cfg) = Inr res \<longrightarrow> (n, v) \<in> set sv
          \<longrightarrow> (v = 1 \<longleftrightarrow> mean (res n) = mean (expected_demand L (load_network base cfg) n)))"
proof -
  let ?wn = "load_network base cfg"
  have rates: "\<forall>row\<in>set rows. \<forall>p. get_link ?wn (site_id row) = Some p
              \<longrightarrow> repair_rate_of (PGV row) * link_length_of p = 0"
    using assms(1) by (simp add: get_link_def load_network_def)
  have pfz: "\<forall>row\<in>set rows. \<forall>p n. get_link base (site_id row) = Some p
              \<longrightarrow> pf (damage_draw_of p (PGV row) n) = 0"
    using assms(1) pf_zero by blast
  obtain g' where plan: "apply_damage_states R ?wn rows [] g = Inr ([], g')"
    using apply_damage_states_no_failure [OF rates assms(2), of "[]" g] by blast
  note run = run_scenario_empty_plan [OF plan, of L]
  have same: "map_sum id fst (run_scenario R L base cfg rows g)
        = map_sum id fst (run_scenario R L base cfg [] g)"
    unfolding run run_scenario_no_rows by (simp split: sum.splits)
  have one: "v = 1 \<longleftrightarrow> mean (res n) = mean (expected_demand L ?wn n)"
    if "run_scenario R L base cfg rows g = Inr (sv, g'')" "run_sim L ?wn = Inr res" "(n, v) \<in> set sv"
    for sv g'' res n v
  proof -
    from that(1,2) have "sv = calc_serviceability L ?wn res (node_name_list ?wn) []"
      unfolding run by simp
    with that(3) have "eligible L ?wn n" "v = ratio L ?wn res n"
      by (simp_all add: calc_serviceability_entry)
    then show ?thesis by (auto simp: eligible_def ratio_def)
  qed
  have ex: "\<exists>g'. apply_damage_states R ?wn rows [] g = Inr ([], g')
           \<and> apply_orifice_areas cfg ?wn [] = Inr ?wn
           \<and> run_scenario R L base cfg rows g =
                (case run_sim L ?wn of
                   Inl e \<Rightarrow> Inl e
                 | Inr res \<Rightarrow> Inr (calc_serviceability L ?wn res (node_name_list ?wn) [], g'))"
    using plan run by (intro exI [of _ g']) simp
  have one': "\<forall>sv g' res n v. run_scenario R L base cfg rows g = Inr (sv, g')
          \<longrightarrow> run_sim L ?wn = Inr res \<longrightarrow> (n, v) \<in> set sv
          \<longrightarrow> (v = 1 \<longleftrightarrow> mean (res n) = mean (expected_demand L ?wn n))"
    using one by blast
  show ?thesis by (rule conjI [OF pfz conjI [OF ex conjI [OF same one']]])
qed


theorem zero_rate_scenario_is_undamaged_witness:
  "get_link example_network ''P1'' = Some \<lparr> p_length = 1000, p_diameter = 1/2 \<rparr>
   \<and> repair_rate_of (PGV (obs 0 ''P1'' 0)) * link_length_of \<lparr> p_length = 1000, p_diameter = 1/2 \<rparr> = 0
   \<and> get_link example_network ''X9'' = None
   \<and> get_link example_network ''P2'' = Some \<lparr> p_length = 500, p_diameter = 1 \<rparr>
   \<and> repair_rate_of (PGV (obs 0 ''P2'' 0)) * link_length_of \<lparr> p_length = 500, p_diameter = 1 \<rparr> = 0
   \<and> (\<forall>g. 0 \<le> fst (uniform tape_rng g))
   \<and> apply_damage_states tape_rng (load_network example_network example_config)
        [obs 0 ''P1'' 0, obs 0 ''X9'' 5, obs 0 ''P2'' 0] [] [(3, 0)] = Inr ([], [])
   \<and> map_sum id fst (run_scenario tape_rng solver_full example_network example_config
                        [obs 0 ''P1'' 0, obs 0 ''X9'' 5, obs 0 ''P2'' 0] [(3, 0)])
        = map_sum id fst (run_scenario tape_rng solver_full example_network example_config [] [(3, 0)])
   \<and> map_sum id fst (run_scenario tape_rng solver_full example_network example_config [] [(3, 0)])
        = Inr [(''J1'', 1), (''J2'', 1)]"
proof -
  have h1: "\<forall>row\<in>set [obs 0 ''P1'' 0, obs 0 ''X9'' 5, obs 0 ''P2'' 0].
      \<forall>p. get_link example_network (site_id row) = Some p
          \<longrightarrow> repair_rate_of (PGV row) * link_length_of p = 0"
    by (simp add: obs_def repair_rate_of_def get_link_def example_network_def)
  have plan: "apply_damage_states tape_rng (load_network example_network example_config)
        [obs 0 ''P1'' 0, obs 0 ''X9'' 5, obs 0 ''P2'' 0] [] [(3, 0)] = Inr ([], [])"
    by (simp add: eval_defs)
  have base: "map_sum id fst (run_scenario tape_rng solver_full example_network example_config [] [(3, 0)])
        = Inr [(''J1'', 1), (''J2'', 1)]"
    by (simp add: eval_defs solver_full_def unit_demand_def)
  note main = zero_rate_scenario_is_undamaged
      [OF h1 tape_uniform_nonneg, of example_config "[(3, 0)]" solver_full]
  note same = main [THEN conjunct2, THEN conjunct2, THEN conjunct1]
  have links: "get_link example_network ''P1'' = Some \<lparr> p_length = 1000, p_diameter = 1/2 \<rparr>"
    "get_link example_network ''X9'' = None"
    "get_link example_network ''P2'' = Some \<lparr> p_length = 500, p_diameter = 1 \<rparr>"
    by (simp_all add: get_link_def example_network_def)
  have rates: "repair_rate_of (PGV (obs 0 ''P1'' 0)) * link_length_of \<lparr> p_length = 1000, p_diameter = 1/2 \<rparr> = 0"
    "repair_rate_of (PGV (obs 0 ''P2'' 0)) * link_length_of \<lparr> p_length = 500, p_diameter = 1 \<rparr> = 0"
    by (simp_all add: obs_def repair_rate_of_def)
  show ?thesis
    by (intro conjI) (fact links rates tape_uniform_nonneg plan same base)+
qed

text \<open>
  The claim as the specification states it fails in its last part: the baseline value
  need not be 1. Under a solver that delivers half of the expected demand to the
  undamaged network, a scenario with \<open>PGV = 0\<close> on every row has serviceability 1/2.
\<close>

theorem undamaged_serviceability_below_one:
  "run_hydraulic_simulation tape_rng solver_deficit example_network
      [obs 0 ''P1'' 0, obs 0 ''P2'' 0] example_config [(3, 0)]
     = Inr ([\<lparr> out_site_id = ''J1'', out_scenario_index = 0, serviceability = 1/2 \<rparr>,
             \<lparr> out_site_id = ''J2'', out_scenario_index = 0, serviceability = 1/2 \<rparr>], [])"
  by (simp add: eval_defs solver_deficit_def unit_demand_def)

subsection \<open>A solver that raises\<close>

text \<open>
  Claim C4, as the code has it. The call \<^verbatim>\<open>sim.run_sim()\<close> stands in no \<^verbatim>\<open>try\<close>
  block: when the solver raises for the snapshot of one scenario, after the earlier
  scenarios have run, that scenario raises, the loop over the scenarios raises, and
  the batch call raises the same error. No table is returned, the values accumulated
  for the earlier scenarios are lost, the later scenarios do not run, and the result
  type has no place for a manifest of excluded scenarios.
\<close>

theorem solver_failure_aborts_batch:
  assumes "groupby_scenario_index df = gs1 @ (k, grp) # gs2"
    and "run_scenarios R L base cfg gs1 [] g = Inr (d1, g1)"
    and "apply_damage_states R (load_network base cfg) grp [] g1 = Inr (plan, g2)"
    and "apply_orifice_areas cfg (load_network base cfg) plan = Inr wn'"
    and "run_sim L wn' = Inl e"
  shows "run_scenario R L base cfg grp g1 = Inl e
    \<and> run_scenarios R L base cfg (gs1 @ (k, grp) # gs2) [] g = Inl e
    \<and> run_hydraulic_simulation R L base df cfg g = Inl e"
proof -
  have one: "run_scenario R L base cfg grp g1 = Inl e"
    unfolding run_scenario_def Let_def by (simp only: assms(3,4,5) sum.case prod.case)
  have all: "run_scenarios R L base cfg (gs1 @ (k, grp) # gs2) [] g = Inl e"
    by (simp add: run_scenarios_append assms(2) one)
  then have "run_hydraulic_simulation R L base df cfg g = Inl e"
    by (simp add: run_hydraulic_simulation_def assms(1))
  with one all show ?thesis by simp
qed

theorem solver_failure_aborts_batch_witness:
  "groupby_scenario_index [obs 0 ''J1'' 100, obs 1 ''P1'' 100, obs 2 ''P2'' 0]
     = [(0, [obs 0 ''J1'' 100])] @ (1, [obs 1 ''P1'' 100]) # [(2, [obs 2 ''P2'' 0])]
   \<and> run_scenarios tape_rng solver_diverging example_network example_config
        [(0, [obs 0 ''J1'' 100])] [] [(3, 0)] = Inr ([(''J1'', [1]), (''J2'', [1])], [(3, 0)])
   \<and> run_sim solver_diverging
        (leak_snapshot example_config (load_network example_network example_config) ''P1''
           \<lparr> p_length = 1000, p_diameter = 1/2 \<rparr> (3 * pi / 800)) = Inl SimulationError
   \<and> run_hydraulic_simulation tape_rng solver_diverging example_network
        [obs 0 ''J1'' 100, obs 1 ''P1'' 100, obs 2 ''P2'' 0] example_config [(3, 0)]
        = Inl SimulationError"
proof -
  let ?wn = "load_network example_network example_config"
  let ?wn' = "leak_snapshot example_config ?wn ''P1'' \<lparr> p_length = 1000, p_diameter = 1/2 \<rparr> (3 * pi / 800)"
  have h2: "run_scenarios tape_rng solver_diverging example_network example_config
        [(0, [obs 0 ''J1'' 100])] [] [(3, 0)] = Inr ([(''J1'', [1]), (''J2'', [1])], [(3, 0)])"
    by (simp add: eval_defs solver_diverging_def unit_demand_def)
  have h3: "apply_damage_states tape_rng ?wn [obs 1 ''P1'' 100] [] [(3, 0)]
              = Inr ([(''P1'', 3 * pi / 800)], [])"
    by (simp add: eval_defs power2_eq_square)
  have h4: "apply_orifice_areas example_config ?wn [(''P1'', 3 * pi / 800)] = Inr ?wn'"
    by (rule apply_orifice_areas_single) (simp_all add: eval_defs)
  have h5: "run_sim solver_diverging ?wn' = Inl SimulationError"
    by (simp add: solver_diverging_def leak_snapshot_def)
  note main = solver_failure_aborts_batch [OF groupby_three h2 h3 h4 h5]
  show ?thesis
    by (rule conjI [OF groupby_three conjI [OF h2 conjI [OF h5 main [THEN conjunct2, THEN conjunct2]]]])
qed

text \<open>
  The claim as the specification states it fails: with a solver that diverges on the
  damaged snapshot of scenario 0, the batch does not continue with scenario 1 and
  returns no table.
\<close>

theorem diverging_scenario_aborts_batch:
  "run_hydraulic_simulation tape_rng solver_diverging example_network
      [obs 0 ''P1'' 100, obs 1 ''J1'' 100] example_config [(3, 0)] = Inl SimulationError"
  by (simp add: eval_defs solver_diverging_def unit_demand_def power2_eq_square)

subsection \<open>One generator for all scenarios\<close>

text \<open>
  Claim C5, as the code has it. Nothing is seeded: every draw comes from the one
  ambient generator. The groups are the distinct keys in ascending order, each with
  its rows in table order; the batch runs them in that order, each scenario starting
  from the generator state the one before it left. So, for a given generator state at
  the start, two tables that hold the same rows in the same order for every key give
  the same result, however the rows of different scenarios are arranged among each
  other.
\<close>

theorem scenarios_run_in_key_order_from_one_generator:
  "groupby_scenario_index df =
     map (\<lambda>k. (k, filter (\<lambda>r. scenario_index r = k) df))
         (sorted_list_of_set (scenario_index ` set df))
   \<and> sorted (map fst (groupby_scenario_index df))
   \<and> distinct (map fst (groupby_scenario_index df))
   \<and> run_hydraulic_simulation R L base df cfg g =
       (case run_scenarios R L base cfg (groupby_scenario_index df) [] g of
          Inl e \<Rightarrow> Inl e
        | Inr (d, g') \<Rightarrow> (case to_long d of Inl e \<Rightarrow> Inl e | Inr t \<Rightarrow> Inr (t, g')))
   \<and> run_scenarios R L base cfg ((k, grp) # rest) d g =
       (case run_scenario R L base cfg grp g of
          Inl e \<Rightarrow> Inl e
        | Inr (sv, g1) \<Rightarrow> run_scenarios R L base cfg rest (accumulate sv d) g1)
   \<and> run_scenarios R L base cfg (gs1 @ gs2) d g =
       (case run_scenarios R L base cfg gs1 d g of
          Inl e \<Rightarrow> Inl e
        | Inr (d1, g1) \<Rightarrow> run_scenarios R L base cfg gs2 d1 g1)
   \<and> ((\<forall>k. filter (\<lambda>r. scenario_index r = k) df1 = filter (\<lambda>r. scenario_index r = k) df2)
        \<longrightarrow> run_hydraulic_simulation R L base df1 cfg g = run_hydraulic_simulation R L base df2 cfg g)"
proof -
  have perm: "run_hydraulic_simulation R L base df1 cfg g = run_hydraulic_simulation R L base df2 cfg g"
    if "\<forall>k. filter (\<lambda>r. scenario_index r = k) df1 = filter (\<lambda>r. scenario_index r = k) df2"
    using groupby_cong [OF that] by (simp add: run_hydraulic_simulation_def)
  have top: "run_hydraulic_simulation R L base df cfg g =
       (case run_scenarios R L base cfg (groupby_scenario_index df) [] g of
          Inl e \<Rightarrow> Inl e
        | Inr (d, g') \<Rightarrow> (case to_long d of Inl e \<Rightarrow> Inl e | Inr t \<Rightarrow> Inr (t, g')))"
    by (simp add: run_hydraulic_simulation_def)
  have step: "run_scenarios R L base cfg ((k, grp) # rest) d g =
       (case run_scenario R L base cfg grp g of
          Inl e \<Rightarrow> Inl e
        | Inr (sv, g1) \<Rightarrow> run_scenarios R L base cfg rest (accumulate sv d) g1)"
    by simp
  have perm': "(\<forall>k. filter (\<lambda>r. scenario_index r = k) df1 = filter (\<lambda>r. scenario_index r = k) df2)
        \<longrightarrow> run_hydraulic_simulation R L base df1 cfg g = run_hydraulic_simulation R L base df2 cfg g"
    using perm by (rule impI)
  show ?thesis
    by (rule conjI [OF groupby_canonical conjI [OF groupby_keys_sorted [THEN conjunct1]
          conjI [OF groupby_keys_sorted [THEN conjunct2] conjI [OF top conjI [OF step
          conjI [OF run_scenarios_append perm']]]]]])
qed

theorem scenarios_run_in_key_order_from_one_generator_witness:
  "(\<forall>k. filter (\<lambda>r. scenario_index r = k) [obs 1 ''P2'' 100, obs 2 ''J1'' 0, obs 0 ''P1'' 100]
       = filter (\<lambda>r. scenario_index r = k) [obs 0 ''P1'' 100, obs 1 ''P2'' 100, obs 2 ''J1'' 0])
   \<and> run_hydraulic_simulation tape_rng solver_leaky example_network
        [obs 1 ''P2'' 100, obs 2 ''J1'' 0, obs 0 ''P1'' 100] example_config [(3, 0), (3, 99)]
      = run_hydraulic_simulation tape_rng solver_leaky example_network
        [obs 0 ''P1'' 100, obs 1 ''P2'' 100, obs 2 ''J1'' 0] example_config [(3, 0), (3, 99)]
   \<and> run_hydraulic_simulation tape_rng solver_leaky example_network
        [obs 0 ''P1'' 100, obs 1 ''P2'' 100, obs 2 ''J1'' 0] example_config [(3, 0), (3, 99)]
      = Inr ([\<lparr> out_site_id = ''J1'', out_scenario_index = 0, serviceability = 1/2 \<rparr>,
              \<lparr> out_site_id = ''J2'', out_scenario_index = 0, serviceability = 1/2 \<rparr>,
              \<lparr> out_site_id = ''J1'', out_scenario_index = 1, serviceability = 1 \<rparr>,
              \<lparr> out_site_id = ''J2'', out_scenario_index = 1, serviceability = 1 \<rparr>,
              \<lparr> out_site_id = ''J1'', out_scenario_index = 2, serviceability = 1 \<rparr>,
              \<lparr> out_site_id = ''J2'', out_scenario_index = 2, serviceability = 1 \<rparr>], [])"
proof -
  have ev: "run_hydraulic_simulation tape_rng solver_leaky example_network
        [obs 0 ''P1'' 100, obs 1 ''P2'' 100, obs 2 ''J1'' 0] example_config [(3, 0), (3, 99)]
      = Inr ([\<lparr> out_site_id = ''J1'', out_scenario_index = 0, serviceability = 1/2 \<rparr>,
              \<lparr> out_site_id = ''J2'', out_scenario_index = 0, serviceability = 1/2 \<rparr>,
              \<lparr> out_site_id = ''J1'', out_scenario_index = 1, serviceability = 1 \<rparr>,
              \<lparr> out_site_id = ''J2'', out_scenario_index = 1, serviceability = 1 \<rparr>,
              \<lparr> out_site_id = ''J1'', out_scenario_index = 2, serviceability = 1 \<rparr>,
              \<lparr> out_site_id = ''J2'', out_scenario_index = 2, serviceability = 1 \<rparr>], [])"
    by (simp add: eval_defs solver_leaky_def unit_demand_def power2_eq_square exp_neg_not_small)
  note main = scenarios_run_in_key_order_from_one_generator
      [where R = tape_rng and L = solver_leaky and base = example_network and cfg = example_config
         and g = "[(3, 0), (3, 99)]"
         and ?df1.0 = "[obs 1 ''P2'' 100, obs 2 ''J1'' 0, obs 0 ''P1'' 100]"
         and ?df2.0 = "[obs 0 ''P1'' 100, obs 1 ''P2'' 100, obs 2 ''J1'' 0]",
       THEN conjunct2, THEN conjunct2, THEN conjunct2, THEN conjunct2, THEN conjunct2,
       THEN conjunct2]
  from main [THEN mp, OF three_blocks_same_groups]
  have same: "run_hydraulic_simulation tape_rng solver_leaky example_network
        [obs 1 ''P2'' 100, obs 2 ''J1'' 0, obs 0 ''P1'' 100] example_config [(3, 0), (3, 99)]
      = run_hydraulic_simulation tape_rng solver_leaky example_network
        [obs 0 ''P1'' 100, obs 1 ''P2'' 100, obs 2 ''J1'' 0] example_config [(3, 0), (3, 99)]" .
  show ?thesis by (rule conjI [OF three_blocks_same_groups conjI [OF same ev]])
qed

text \<open>
  The claim as the specification states it fails: the results of one scenario depend
  on the scenarios that ran before it. From the same generator state, the scenario
  with the row for \<open>P1\<close> has serviceability 1/2 when it holds the smaller key and runs
  first, and 1 when the keys are exchanged and it runs second.
\<close>

theorem scenario_results_depend_on_order:
  "run_hydraulic_simulation tape_rng solver_leaky example_network
        [obs 0 ''P1'' 100, obs 1 ''P2'' 100] example_config [(3, 0), (3, 99)]
      = Inr ([\<lparr> out_site_id = ''J1'', out_scenario_index = 0, serviceability = 1/2 \<rparr>,
              \<lparr> out_site_id = ''J2'', out_scenario_index = 0, serviceability = 1/2 \<rparr>,
              \<lparr> out_site_id = ''J1'', out_scenario_index = 1, serviceability = 1 \<rparr>,
              \<lparr> out_site_id = ''J2'', out_scenario_index = 1, serviceability = 1 \<rparr>], [])
   \<and> run_hydraulic_simulation tape_rng solver_leaky example_network
        [obs 1 ''P1'' 100, obs 0 ''P2'' 100] example_config [(3, 0), (3, 99)]
      = Inr ([\<lparr> out_site_id = ''J1'', out_scenario_index = 0, serviceability = 1/4 \<rparr>,
              \<lparr> out_site_id = ''J2'', out_scenario_index = 0, serviceability = 1/4 \<rparr>,
              \<lparr> out_site_id = ''J1'', out_scenario_index = 1, serviceability = 1 \<rparr>,
              \<lparr> out_site_id = ''J2'', out_scenario_index = 1, serviceability = 1 \<rparr>], [])"
  by (simp add: eval_defs solver_leaky_def unit_demand_def power2_eq_square exp_neg_not_small)

subsection \<open>The reshape to the long table\<close>






text \<open>
  Claim C2, evaluated where the code departs from it. The \<^verbatim>\<open>scenario_index\<close> column of
  the table holds the position of the scenario among the groups, counted from 0, not
  the key of the scenario in the input: for a table whose scenarios have the keys 5
  and 7 the rows carry 0 and 1.
\<close>

theorem scenario_key_replaced_by_position:
  "run_hydraulic_simulation tape_rng solver_full example_network
      [obs 5 ''P1'' 0, obs 7 ''P2'' 0] example_config []
     = Inr ([\<lparr> out_site_id = ''J1'', out_scenario_index = 0, serviceability = 1 \<rparr>,
             \<lparr> out_site_id = ''J2'', out_scenario_index = 0, serviceability = 1 \<rparr>,
             \<lparr> out_site_id = ''J1'', out_scenario_index = 1, serviceability = 1 \<rparr>,
             \<lparr> out_site_id = ''J2'', out_scenario_index = 1, serviceability = 1 \<rparr>], [])"
  by (simp add: eval_defs solver_full_def unit_demand_def)

end
